theory Spec2Isabelle
  imports Complex_Main "HOL-Library.Word"
begin

section \<open>Python values shared by the services and the routers\<close>

text \<open>
  The KYC ML service is three FastAPI routers on top of two service classes,
  \<^verbatim>\<open>OpenCVService\<close> and \<^verbatim>\<open>DeepFaceService\<close>. The calls into OpenCV, DeepFace,
  the temporary-file module and the upload object are not code of the repository: they
  are fields of environment records below, and every theorem holds for all of them.

  An exception instance is kept with the one distinction the source makes on it
  (\<^verbatim>\<open>except ValueError\<close> before \<^verbatim>\<open>except Exception\<close>) and with its message, which
  is what \<^verbatim>\<open>str(exc)\<close> returns. \<open>ValueError\<close> stands for \<^verbatim>\<open>ValueError\<close> and its
  subclasses, \<open>Exception\<close> for every other subclass of \<^verbatim>\<open>Exception\<close> (\<^verbatim>\<open>OSError\<close>,
  \<^verbatim>\<open>cv2.error\<close>, \<^verbatim>\<open>TypeError\<close>, ...). A call that may raise has a result of type
  \<open>exn + 'a\<close>, with \<open>Inl\<close> for the raise.

  A Python float is a rational (every finite double is one). Comparisons, \<^verbatim>\<open>min\<close> and
  \<^verbatim>\<open>max\<close> are exact on doubles and are written as such. The one subtraction of
  \<^verbatim>\<open>verify_faces\<close> is written as the exact difference, which the double result
  approximates to the last bit. The quotients, the sum and the rounding to two digits
  of \<^verbatim>\<open>detect_liveness\<close> are operations of the runtime on a numpy \<^verbatim>\<open>float64\<close>: their
  results near a tie depend on binary rounding and on the rounding routine, so they
  are fields of the environment and nothing is assumed about them.
\<close>

datatype exn = ValueError string | Exception string

fun str :: "exn \<Rightarrow> string" where
  "str (ValueError m) = m"
| "str (Exception m) = m"

type_synonym byte = "8 word"

type_synonym float = rat

text \<open>\<^verbatim>\<open>int(q)\<close> on a float truncates towards zero.\<close>

definition py_int :: "float \<Rightarrow> int" where
  "py_int q = (if 0 \<le> q then \<lfloor>q\<rfloor> else \<lceil>q\<rceil>)"

text \<open>
  \<^verbatim>\<open>xs[start:stop]\<close> with integer bounds: a negative bound counts from the end, and
  both bounds are clamped to the length.
\<close>

definition slice_index :: "int \<Rightarrow> int \<Rightarrow> nat" where
  "slice_index n i = nat (if i < 0 then max (i + n) 0 else min i n)"

definition py_slice :: "'a list \<Rightarrow> int \<Rightarrow> int \<Rightarrow> 'a list" where
  "py_slice xs start stop =
     (let n = int (length xs); a = slice_index n start; b = slice_index n stop
      in take (b - a) (drop a xs))"

text \<open>
  \<^verbatim>\<open>max(xs, key=f)\<close>: the first element whose key is maximal; \<^verbatim>\<open>ValueError\<close> on an
  empty sequence.
\<close>

fun max_from :: "('a \<Rightarrow> int) \<Rightarrow> 'a \<Rightarrow> 'a list \<Rightarrow> 'a" where
  "max_from key best [] = best"
| "max_from key best (x # xs) = max_from key (if key best < key x then x else best) xs"

definition py_max :: "('a \<Rightarrow> int) \<Rightarrow> 'a list \<Rightarrow> exn + 'a" where
  "py_max key xs =
     (case xs of
        [] \<Rightarrow> Inl (ValueError ''max() arg is an empty sequence'')
      | x # rest \<Rightarrow> Inr (max_from key x rest))"

text \<open>\<^verbatim>\<open>base64.b64encode(buf).decode("utf-8")\<close>: the standard alphabet, padded with \<open>=\<close>.\<close>

definition b64_alphabet :: string where
  "b64_alphabet = ''ABCDEFGHIJKLMNOPQRSTUVWXYZabcdefghijklmnopqrstuvwxyz0123456789+/''"

definition b64_char :: "nat \<Rightarrow> char" where
  "b64_char n = b64_alphabet ! (n mod 64)"

fun b64encode :: "byte list \<Rightarrow> string" where
  "b64encode [] = []"
| "b64encode [a] =
     (let n = unat a * 65536
      in [b64_char (n div 262144), b64_char (n div 4096), CHR ''='', CHR ''=''])"
| "b64encode [a, b] =
     (let n = unat a * 65536 + unat b * 256
      in [b64_char (n div 262144), b64_char (n div 4096), b64_char (n div 64), CHR ''=''])"
| "b64encode (a # b # c # rest) =
     (let n = unat a * 65536 + unat b * 256 + unat c
      in [b64_char (n div 262144), b64_char (n div 4096), b64_char (n div 64), b64_char n]
         @ b64encode rest)"

section \<open>opencv\_service.py\<close>

text \<open>
  An image read by \<^verbatim>\<open>cv2.imread\<close> is an array of shape (height, width, 3): a list of
  rows of BGR pixels. A detection is a row \<open>(x, y, w, h)\<close> of the array returned by
  \<^verbatim>\<open>detectMultiScale\<close>. The coordinates are 32-bit in numpy; an image that OpenCV reads
  has at most \<open>2^30\<close> pixels, so the products and sums below stay in range and are
  written on \<open>int\<close>.
\<close>

type_synonym pixel = "byte \<times> byte \<times> byte"
type_synonym image = "pixel list list"
type_synonym gray_image = "byte list list"
type_synonym rect = "int \<times> int \<times> int \<times> int"

text \<open>\<^verbatim>\<open>height, width, _ = image.shape\<close>\<close>

definition shape :: "image \<Rightarrow> int \<times> int" where
  "shape img = (int (length img), (case img of [] \<Rightarrow> 0 | row # _ \<Rightarrow> int (length row)))"

text \<open>\<^verbatim>\<open>image[y0:y1, x0:x1]\<close>\<close>

definition crop :: "image \<Rightarrow> int \<Rightarrow> int \<Rightarrow> int \<Rightarrow> int \<Rightarrow> image" where
  "crop img y0 y1 x0 x1 = map (\<lambda>row. py_slice row x0 x1) (py_slice img y0 y1)"

text \<open>
  The calls into OpenCV and numpy. \<open>Laplacian_var\<close> is
  \<^verbatim>\<open>cv2.Laplacian(gray, cv2.CV_64F).var()\<close> and \<open>mean\<close> is \<^verbatim>\<open>gray.mean()\<close>, both numpy
  \<^verbatim>\<open>float64\<close> values; \<open>float64_truediv\<close>, \<open>float64_add\<close> and \<open>float64_round\<close> are
  \<^verbatim>\<open>x / y\<close>, \<^verbatim>\<open>x + y\<close> and \<^verbatim>\<open>round(x, ndigits)\<close> on such values.
\<close>

record cv2_env =
  imread :: "string \<Rightarrow> image option"
  cvtColor :: "image \<Rightarrow> gray_image"
  equalizeHist :: "gray_image \<Rightarrow> gray_image"
  detectMultiScale :: "gray_image \<Rightarrow> exn + rect list"
  imencode :: "image \<Rightarrow> exn + bool \<times> byte list"
  Laplacian_var :: "gray_image \<Rightarrow> float"
  mean :: "gray_image \<Rightarrow> float"
  float64_truediv :: "float \<Rightarrow> float \<Rightarrow> float"
  float64_add :: "float \<Rightarrow> float \<Rightarrow> float"
  float64_round :: "float \<Rightarrow> nat \<Rightarrow> float"

record extraction_result =
  success :: bool
  face_found :: bool
  face_base64 :: "string option"
  face_count :: int
  message :: string

text \<open>
  \<^verbatim>\<open>_add_padding(shape, bbox, padding_ratio)\<close>. The caller passes the float \<^verbatim>\<open>0.2\<close>;
  the double nearest to it exceeds \<open>1/5\<close> by less than \<open>2 / 10^17\<close>, so for a 32-bit
  \<open>w\<close> the truncated product \<^verbatim>\<open>int(w * 0.2)\<close> is the truncation of \<open>w / 5\<close>, which is
  what the rational \<open>1/5\<close> gives here.
\<close>

definition add_padding :: "int \<times> int \<Rightarrow> rect \<Rightarrow> float \<Rightarrow> rect" where
  "add_padding shp bbox padding_ratio =
     (case shp of (height, width) \<Rightarrow>
      case bbox of (x, y, w, h) \<Rightarrow>
        let pad_w = py_int (of_int w * padding_ratio);
            pad_h = py_int (of_int h * padding_ratio);
            x_new = max 0 (x - pad_w);
            y_new = max 0 (y - pad_h);
            w_new = min (width - x_new) (w + 2 * pad_w);
            h_new = min (height - y_new) (h + 2 * pad_h)
        in (x_new, y_new, w_new, h_new))"

definition area :: "rect \<Rightarrow> int" where
  "area r = (case r of (x, y, w, h) \<Rightarrow> w * h)"

definition extraction_failure :: "bool \<Rightarrow> int \<Rightarrow> string \<Rightarrow> extraction_result" where
  "extraction_failure found n msg =
     \<lparr>success = False, face_found = found, face_base64 = None, face_count = n, message = msg\<rparr>"

text \<open>The body of the \<^verbatim>\<open>try\<close> block of \<^verbatim>\<open>extract_face_from_document\<close>.\<close>

definition extract_face_from_document_try :: "cv2_env \<Rightarrow> string \<Rightarrow> exn + extraction_result" where
  "extract_face_from_document_try cv img_path =
     (case imread cv img_path of
        None \<Rightarrow> Inr (extraction_failure False 0 ''Invalid or unreadable image'')
      | Some img \<Rightarrow>
          (let gray = equalizeHist cv (cvtColor cv img) in
           case detectMultiScale cv gray of
             Inl exc \<Rightarrow> Inl exc
           | Inr faces \<Rightarrow>
               (let count = int (length faces) in
                if count = 0 then Inr (extraction_failure False 0 ''No face detected'')
                else
                  case py_max area faces of
                    Inl exc \<Rightarrow> Inl exc
                  | Inr largest \<Rightarrow>
                      (case add_padding (shape img) largest (1 / 5) of (x, y, w, h) \<Rightarrow>
                         (case imencode cv (crop img y (y + h) x (x + w)) of
                            Inl exc \<Rightarrow> Inl exc
                          | Inr (ok, buffer) \<Rightarrow>
                              if \<not> ok
                              then Inr (extraction_failure True count ''Failed to encode face image'')
                              else Inr \<lparr>success = True, face_found = True,
                                        face_base64 = Some (b64encode buffer),
                                        face_count = count,
                                        message = ''Largest face extracted''\<rparr>)))))"

text \<open>The whole method: \<^verbatim>\<open>except Exception as exc\<close> turns every raise into a result.\<close>

definition extract_face_from_document :: "cv2_env \<Rightarrow> string \<Rightarrow> exn + extraction_result" where
  "extract_face_from_document cv img_path =
     (case extract_face_from_document_try cv img_path of
        Inr result \<Rightarrow> Inr result
      | Inl exc \<Rightarrow> Inr (extraction_failure False 0 (str exc)))"

section \<open>deepface\_service.py\<close>

text \<open>
  The dictionary returned by \<^verbatim>\<open>DeepFace.verify\<close>; the service reads three keys of it
  with \<^verbatim>\<open>result.get(key, default)\<close>, so a key may be absent.
\<close>

record deepface_result =
  lib_verified :: "bool option"
  lib_distance :: "float option"
  lib_threshold :: "float option"

text \<open>
  \<^verbatim>\<open>DeepFace.verify(img1_path, img2_path, model_name, detector_backend)\<close> and
  \<^verbatim>\<open>DeepFace.extract_faces(img_path, detector_backend)\<close>; the latter returns one entry
  per face, of which the service takes the number only.
\<close>

record deepface_env =
  DeepFace_verify :: "string \<Rightarrow> string \<Rightarrow> string \<Rightarrow> string \<Rightarrow> exn + deepface_result"
  DeepFace_extract_faces :: "string \<Rightarrow> string \<Rightarrow> exn + rect list"

text \<open>
  Modelled from the spec: the decision rule of the face-recognition library's
  verification call (\<^verbatim>\<open>DeepFace.verify\<close>), which is not in the repository. The spec
  describes it as "a face-recognition library call producing a distance/threshold
  pair" and face verification as "comparing two face images via an embedding-distance
  metric against a fixed threshold to decide match/no-match", with "an error marker
  when no face is found". The metric, which raises where no face is found, and the
  fixed threshold are parameters; a match is a distance of at most the threshold.
\<close>

definition DeepFace_verify_spec ::
  "(string \<Rightarrow> string \<Rightarrow> exn + float) \<Rightarrow> float \<Rightarrow>
     string \<Rightarrow> string \<Rightarrow> string \<Rightarrow> string \<Rightarrow> exn + deepface_result" where
  "DeepFace_verify_spec embedding_distance fixed_threshold img1_path img2_path model_name backend =
     (case embedding_distance img1_path img2_path of
        Inl exc \<Rightarrow> Inl exc
      | Inr d \<Rightarrow>
          Inr \<lparr>lib_verified = Some (d \<le> fixed_threshold), lib_distance = Some d,
               lib_threshold = Some fixed_threshold\<rparr>)"

record verification_result =
  verified :: bool
  confidence :: float
  error :: "string option"
  distance :: float
  model :: string
  threshold :: float

record liveness_result =
  is_live :: bool
  liveness_confidence :: float
  liveness_method :: string
  liveness_message :: string

definition MODEL_NAME :: string where
  "MODEL_NAME = ''ArcFace''"

definition DETECTOR_BACKEND :: string where
  "DETECTOR_BACKEND = ''opencv''"

definition BLUR_THRESHOLD :: float where
  "BLUR_THRESHOLD = 100"

definition verification_failure :: "string \<Rightarrow> verification_result" where
  "verification_failure msg =
     \<lparr>verified = False, confidence = 0, error = Some msg, distance = 1,
      model = MODEL_NAME, threshold = 0\<rparr>"

text \<open>The body of the \<^verbatim>\<open>try\<close> block of \<^verbatim>\<open>verify_faces\<close>.\<close>

definition verify_faces_try :: "deepface_env \<Rightarrow> string \<Rightarrow> string \<Rightarrow> exn + verification_result" where
  "verify_faces_try df img1_path img2_path =
     (case DeepFace_verify df img1_path img2_path MODEL_NAME DETECTOR_BACKEND of
        Inl exc \<Rightarrow> Inl exc
      | Inr result \<Rightarrow>
          (let dist = (case lib_distance result of Some d \<Rightarrow> d | None \<Rightarrow> 1);
               thr = (case lib_threshold result of Some t \<Rightarrow> t | None \<Rightarrow> 0);
               conf = max 0 (1 - dist)
           in Inr \<lparr>verified = (case lib_verified result of Some b \<Rightarrow> b | None \<Rightarrow> False),
                    confidence = conf, error = None, distance = dist,
                    model = MODEL_NAME, threshold = thr\<rparr>))"

text \<open>The two handlers: \<^verbatim>\<open>except ValueError\<close> first, then \<^verbatim>\<open>except Exception\<close>.\<close>

definition verify_faces :: "deepface_env \<Rightarrow> string \<Rightarrow> string \<Rightarrow> exn + verification_result" where
  "verify_faces df img1_path img2_path =
     (case verify_faces_try df img1_path img2_path of
        Inr result \<Rightarrow> Inr result
      | Inl (ValueError m) \<Rightarrow> Inr (verification_failure ''No face detected'')
      | Inl (Exception m) \<Rightarrow> Inr (verification_failure m))"

definition liveness_failure :: "string \<Rightarrow> liveness_result" where
  "liveness_failure msg =
     \<lparr>is_live = False, liveness_confidence = 0, liveness_method = ''basic_quality_check'',
      liveness_message = msg\<rparr>"

text \<open>
  The body of the \<^verbatim>\<open>try\<close> block of \<^verbatim>\<open>detect_liveness\<close>. The product
  \<^verbatim>\<open>BLUR_THRESHOLD * 0.5\<close> is the double \<open>50\<close> exactly.
\<close>

definition detect_liveness_try :: "deepface_env \<Rightarrow> cv2_env \<Rightarrow> string \<Rightarrow> exn + liveness_result" where
  "detect_liveness_try df cv img_path =
     (case DeepFace_extract_faces df img_path DETECTOR_BACKEND of
        Inl exc \<Rightarrow> Inl exc
      | Inr faces \<Rightarrow>
          if int (length faces) = 0 then Inr (liveness_failure ''No face detected'')
          else
            (case imread cv img_path of
               None \<Rightarrow> Inr (liveness_failure ''Invalid image'')
             | Some img \<Rightarrow>
                 (let gray = cvtColor cv img;
                      blur = Laplacian_var cv gray;
                      brightness = mean cv gray;
                      blur_score = min 1 (float64_truediv cv blur BLUR_THRESHOLD);
                      brightness_score = (if 60 \<le> brightness \<and> brightness \<le> 200 then 1 else 0);
                      conf = float64_truediv cv (float64_add cv blur_score brightness_score) 2;
                      live = (BLUR_THRESHOLD * (1 / 2) < blur \<and> 0 < brightness_score)
                  in Inr \<lparr>is_live = live, liveness_confidence = float64_round cv conf 2,
                           liveness_method = ''basic_quality_check'',
                           liveness_message =
                             (if live then ''Liveness indicators passed''
                              else ''Liveness indicators weak'')\<rparr>)))"

definition detect_liveness :: "deepface_env \<Rightarrow> cv2_env \<Rightarrow> string \<Rightarrow> exn + liveness_result" where
  "detect_liveness df cv img_path =
     (case detect_liveness_try df cv img_path of
        Inr result \<Rightarrow> Inr result
      | Inl exc \<Rightarrow> Inr (liveness_failure (str exc)))"

section \<open>The routers\<close>

text \<open>
  A handler works on an upload, on temporary files and on an injected service. What the
  outside world answers during one request is the record \<open>io_env\<close>: whether the
  \<open>k\<close>-th \<^verbatim>\<open>NamedTemporaryFile(delete=False, suffix=".jpg")\<close> of the request gives a
  file (and its name) or raises, what reading the upload, writing and closing the file
  give, and whether \<^verbatim>\<open>os.unlink\<close> removes the file (\<open>True\<close>) or raises \<^verbatim>\<open>OSError\<close>.
  A handler returns the calls it made on temporary files and on the service, in order,
  and its outcome: the response body, an \<^verbatim>\<open>HTTPException\<close>, or another exception that
  leaves the handler.
\<close>

record upload =
  filename :: string
  content_type :: "string option"

record io_env =
  NamedTemporaryFile :: "nat \<Rightarrow> exn + string"
  upload_read :: "upload \<Rightarrow> exn + byte list"
  tmp_write :: "string \<Rightarrow> byte list \<Rightarrow> exn + unit"
  tmp_close :: "string \<Rightarrow> exn + unit"
  os_unlink :: "string \<Rightarrow> bool"

datatype raised = HTTPException nat string | Raised exn

datatype event =
    TmpCreated string
  | TmpWrite string "byte list"
  | TmpClose string
  | ServiceCall "string list"
  | OsUnlink string bool

type_synonym 'a io = "event list \<times> (raised + 'a)"

text \<open>One call inside a \<^verbatim>\<open>try\<close> block: the call is recorded, a raise ends the block.\<close>

definition call :: "event list \<Rightarrow> exn + 'a \<Rightarrow> 'a io" where
  "call evs r = (evs, (case r of Inl exc \<Rightarrow> Inl (Raised exc) | Inr v \<Rightarrow> Inr v))"

definition io_bind :: "'a io \<Rightarrow> ('a \<Rightarrow> 'b io) \<Rightarrow> 'b io" where
  "io_bind m f =
     (case m of
        (evs, Inl e) \<Rightarrow> (evs, Inl e)
      | (evs, Inr v) \<Rightarrow> (case f v of (evs', r) \<Rightarrow> (evs @ evs', r)))"

text \<open>
  \<^verbatim>\<open>except HTTPException: raise\<close> and \<^verbatim>\<open>except Exception as exc: raise
  HTTPException(500, detail=str(exc))\<close>, the same in the three handlers.
\<close>

definition except_clauses :: "raised + 'a \<Rightarrow> raised + 'a" where
  "except_clauses outcome =
     (case outcome of
        Inl (HTTPException code detail) \<Rightarrow> Inl (HTTPException code detail)
      | Inl (Raised exc) \<Rightarrow> Inl (HTTPException 500 (str exc))
      | Inr v \<Rightarrow> Inr v)"

text \<open>The \<^verbatim>\<open>finally\<close> block, for one path: the \<^verbatim>\<open>OSError\<close> is caught and logged.\<close>

definition unlink_tmp :: "io_env \<Rightarrow> string \<Rightarrow> event list" where
  "unlink_tmp io path = [OsUnlink path (os_unlink io path)]"

definition validate_image :: "upload \<Rightarrow> raised + unit" where
  "validate_image file =
     (if content_type file \<notin> {Some ''image/jpeg'', Some ''image/png''}
      then Inl (HTTPException 400 ''Unsupported file type. Only JPEG and PNG are allowed.'')
      else Inr ())"

subsection \<open>face\_extraction.py\<close>

definition extract_face_try ::
  "io_env \<Rightarrow> (string \<Rightarrow> exn + extraction_result) \<Rightarrow> upload \<Rightarrow> string \<Rightarrow> extraction_result io" where
  "extract_face_try io service document tmp_file =
     io_bind (call [] (upload_read io document)) (\<lambda>content.
     io_bind (call [TmpWrite tmp_file content] (tmp_write io tmp_file content)) (\<lambda>_.
     io_bind (call [TmpClose tmp_file] (tmp_close io tmp_file)) (\<lambda>_.
     io_bind (call [ServiceCall [tmp_file]] (service tmp_file)) (\<lambda>result.
       if \<not> success result then ([], Inl (HTTPException 400 (message result)))
       else ([], Inr result)))))"

definition extract_face ::
  "io_env \<Rightarrow> (string \<Rightarrow> exn + extraction_result) \<Rightarrow> upload \<Rightarrow> extraction_result io" where
  "extract_face io service document =
     (case validate_image document of
        Inl e \<Rightarrow> ([], Inl e)
      | Inr _ \<Rightarrow>
          (case NamedTemporaryFile io 0 of
             Inl exc \<Rightarrow> ([], Inl (Raised exc))
           | Inr tmp_file \<Rightarrow>
               (case extract_face_try io service document tmp_file of
                  (evs, outcome) \<Rightarrow>
                    (TmpCreated tmp_file # evs @ unlink_tmp io tmp_file,
                     except_clauses outcome))))"

subsection \<open>liveness.py\<close>

definition detect_liveness_handler_try ::
  "io_env \<Rightarrow> (string \<Rightarrow> exn + liveness_result) \<Rightarrow> upload \<Rightarrow> string \<Rightarrow> liveness_result io" where
  "detect_liveness_handler_try io service photo tmp_file =
     io_bind (call [] (upload_read io photo)) (\<lambda>content.
     io_bind (call [TmpWrite tmp_file content] (tmp_write io tmp_file content)) (\<lambda>_.
     io_bind (call [TmpClose tmp_file] (tmp_close io tmp_file)) (\<lambda>_.
     io_bind (call [ServiceCall [tmp_file]] (service tmp_file)) (\<lambda>result.
       if liveness_message result = ''No face detected''
       then ([], Inl (HTTPException 400 (liveness_message result)))
       else ([], Inr result)))))"

definition detect_liveness_handler ::
  "io_env \<Rightarrow> (string \<Rightarrow> exn + liveness_result) \<Rightarrow> upload \<Rightarrow> liveness_result io" where
  "detect_liveness_handler io service photo =
     (case validate_image photo of
        Inl e \<Rightarrow> ([], Inl e)
      | Inr _ \<Rightarrow>
          (case NamedTemporaryFile io 0 of
             Inl exc \<Rightarrow> ([], Inl (Raised exc))
           | Inr tmp_file \<Rightarrow>
               (case detect_liveness_handler_try io service photo tmp_file of
                  (evs, outcome) \<Rightarrow>
                    (TmpCreated tmp_file # evs @ unlink_tmp io tmp_file,
                     except_clauses outcome))))"

subsection \<open>face\_verification.py\<close>

text \<open>\<^verbatim>\<open>if result.get("error")\<close>: the key is present and its string is not empty.\<close>

definition verify_face_try ::
  "io_env \<Rightarrow> (string \<Rightarrow> string \<Rightarrow> exn + verification_result) \<Rightarrow> upload \<Rightarrow> upload \<Rightarrow>
     string \<Rightarrow> string \<Rightarrow> verification_result io" where
  "verify_face_try io service live_photo document_photo live_tmp doc_tmp =
     io_bind (call [] (upload_read io live_photo)) (\<lambda>live_content.
     io_bind (call [] (upload_read io document_photo)) (\<lambda>doc_content.
     io_bind (call [TmpWrite live_tmp live_content] (tmp_write io live_tmp live_content)) (\<lambda>_.
     io_bind (call [TmpWrite doc_tmp doc_content] (tmp_write io doc_tmp doc_content)) (\<lambda>_.
     io_bind (call [TmpClose live_tmp] (tmp_close io live_tmp)) (\<lambda>_.
     io_bind (call [TmpClose doc_tmp] (tmp_close io doc_tmp)) (\<lambda>_.
     io_bind (call [ServiceCall [live_tmp, doc_tmp]] (service live_tmp doc_tmp)) (\<lambda>result.
       case error result of
         None \<Rightarrow> ([], Inr result)
       | Some detail \<Rightarrow>
           if detail = [] then ([], Inr result)
           else ([], Inl (HTTPException 400 detail)))))))))"

text \<open>
  Both temporary files are created before the \<^verbatim>\<open>try\<close> statement is entered, so a
  raise of the second creation leaves the handler at once.
\<close>

definition verify_face ::
  "io_env \<Rightarrow> (string \<Rightarrow> string \<Rightarrow> exn + verification_result) \<Rightarrow> upload \<Rightarrow> upload \<Rightarrow>
     verification_result io" where
  "verify_face io service live_photo document_photo =
     (case validate_image live_photo of
        Inl e \<Rightarrow> ([], Inl e)
      | Inr _ \<Rightarrow>
     (case validate_image document_photo of
        Inl e \<Rightarrow> ([], Inl e)
      | Inr _ \<Rightarrow>
     (case NamedTemporaryFile io 0 of
        Inl exc \<Rightarrow> ([], Inl (Raised exc))
      | Inr live_tmp \<Rightarrow>
     (case NamedTemporaryFile io 1 of
        Inl exc \<Rightarrow> ([TmpCreated live_tmp], Inl (Raised exc))
      | Inr doc_tmp \<Rightarrow>
          (case verify_face_try io service live_photo document_photo live_tmp doc_tmp of
             (evs, outcome) \<Rightarrow>
               ([TmpCreated live_tmp, TmpCreated doc_tmp] @ evs
                  @ unlink_tmp io live_tmp @ unlink_tmp io doc_tmp,
                except_clauses outcome))))))"

subsection \<open>Temporary files left behind by a run\<close>

fun apply_event :: "string set \<Rightarrow> event \<Rightarrow> string set" where
  "apply_event files (TmpCreated path) = insert path files"
| "apply_event files (OsUnlink path removed) = (if removed then files - {path} else files)"
| "apply_event files _ = files"

definition files_after :: "event list \<Rightarrow> string set" where
  "files_after evs = foldl apply_event {} evs"

fun is_unlink :: "event \<Rightarrow> bool" where
  "is_unlink (OsUnlink _ _) = True"
| "is_unlink _ = False"

fun is_create :: "event \<Rightarrow> bool" where
  "is_create (TmpCreated _) = True"
| "is_create _ = False"

section \<open>Concrete runs\<close>

text \<open>
  A 12 by 12 document image in which the detector finds two faces, the larger one at
  \<open>(2, 2, 5, 5)\<close>; the encoder either reports success with three bytes or reports
  failure. Every path but \<open>missing.jpg\<close> is readable. The blur is \<open>100\<close> and the
  brightness \<open>128\<close>, values on which the float operations of the liveness check are
  exact.
\<close>

definition example_image :: image where
  "example_image = replicate 12 (replicate 12 (0, 0, 0))"

definition example_cv :: "bool \<Rightarrow> cv2_env" where
  "example_cv encodable =
     \<lparr>imread = (\<lambda>path. if path = ''missing.jpg'' then None else Some example_image),
      cvtColor = map (map fst),
      equalizeHist = (\<lambda>gray. gray),
      detectMultiScale = (\<lambda>gray. Inr [(7, 7, 3, 3), (2, 2, 5, 5)]),
      imencode = (\<lambda>img. Inr (encodable, if encodable then [77, 97, 110] else [])),
      Laplacian_var = (\<lambda>gray. 100),
      mean = (\<lambda>gray. 128),
      float64_truediv = (\<lambda>x y. x / y),
      float64_add = (\<lambda>x y. x + y),
      float64_round = (\<lambda>x ndigits. of_int (round (x * 10 ^ ndigits)) / 10 ^ ndigits)\<rparr>"

text \<open>
  A face-recognition library that finds a face in every file but \<open>blank.jpg\<close>. With
  \<open>consistent\<close> it reports the distance \<open>2/5\<close> under the threshold \<open>17/25\<close> as a
  match; without, it reports a match at the distance \<open>9/10\<close>.
\<close>

definition example_df :: "bool \<Rightarrow> deepface_env" where
  "example_df consistent =
     \<lparr>DeepFace_verify = (\<lambda>img1 img2 model_name backend.
        if img1 \<noteq> ''blank.jpg'' \<and> img2 \<noteq> ''blank.jpg''
        then Inr \<lparr>lib_verified = Some True,
                  lib_distance = Some (if consistent then 2 / 5 else 9 / 10),
                  lib_threshold = Some (17 / 25)\<rparr>
        else Inl (ValueError ''Face could not be detected'')),
      DeepFace_extract_faces = (\<lambda>img backend.
        if img \<noteq> ''blank.jpg'' then Inr [(2, 2, 5, 5)]
        else Inl (ValueError ''Face could not be detected''))\<rparr>"

text \<open>
  A face-recognition library that follows the decision rule above with the threshold
  \<open>17/25\<close>: it finds no face in \<open>blank.jpg\<close>, measures the distance \<open>9/10\<close> to
  \<open>stranger.jpg\<close> and \<open>2/5\<close> between any other two files.
\<close>

definition example_distance :: "string \<Rightarrow> string \<Rightarrow> exn + float" where
  "example_distance img1 img2 =
     (if img1 = ''blank.jpg'' \<or> img2 = ''blank.jpg''
      then Inl (ValueError ''Face could not be detected'')
      else if img1 = ''stranger.jpg'' \<or> img2 = ''stranger.jpg'' then Inr (9 / 10)
      else Inr (2 / 5))"

definition example_spec_df :: deepface_env where
  "example_spec_df =
     \<lparr>DeepFace_verify = DeepFace_verify_spec example_distance (17 / 25),
      DeepFace_extract_faces = (\<lambda>img backend.
        if img = ''blank.jpg'' then Inl (ValueError ''Face could not be detected'')
        else Inr [(2, 2, 5, 5)])\<rparr>"

text \<open>
  A request during which the operating system gives \<open>available\<close> temporary files and
  refuses any further one; everything else succeeds.
\<close>

definition example_io :: "nat \<Rightarrow> io_env" where
  "example_io available =
     \<lparr>NamedTemporaryFile = (\<lambda>k.
        if k < available then Inr (if k = 0 then ''/tmp/tmp0.jpg'' else ''/tmp/tmp1.jpg'')
        else Inl (Exception ''[Errno 24] Too many open files'')),
      upload_read = (\<lambda>file. Inr [255, 216]),
      tmp_write = (\<lambda>path content. Inr ()),
      tmp_close = (\<lambda>path. Inr ()),
      os_unlink = (\<lambda>path. True)\<rparr>"

definition jpeg_upload :: upload where
  "jpeg_upload = \<lparr>filename = ''photo.jpg'', content_type = Some ''image/jpeg''\<rparr>"

definition text_upload :: upload where
  "text_upload = \<lparr>filename = ''notes.txt'', content_type = Some ''text/plain''\<rparr>"

section \<open>Properties of opencv\_service.py\<close>

subsection \<open>The largest detection\<close>

lemma max_from_mem: "max_from key best xs \<in> set (best # xs)"
  by (induction xs arbitrary: best) auto

lemma max_from_ge_best: "key best \<le> key (max_from key best xs)"
proof (induction xs arbitrary: best)
  case Nil
  show ?case by simp
next
  case (Cons a xs)
  have "key best \<le> key (if key best < key a then a else best)" by simp
  also have "\<dots> \<le> key (max_from key (if key best < key a then a else best) xs)"
    by (rule Cons.IH)
  finally show ?case by simp
qed

lemma max_from_ge: "x \<in> set xs \<Longrightarrow> key x \<le> key (max_from key best xs)"
proof (induction xs arbitrary: best)
  case Nil
  then show ?case by simp
next
  case (Cons a xs)
  show ?case
  proof (cases "x = a")
    case True
    have "key a \<le> key (if key best < key a then a else best)" by simp
    also have "\<dots> \<le> key (max_from key (if key best < key a then a else best) xs)"
      by (rule max_from_ge_best)
    finally show ?thesis using True by simp
  next
    case False
    with Cons.prems have "x \<in> set xs" by simp
    then show ?thesis using Cons.IH by simp
  qed
qed

lemma py_max_largest:
  assumes "xs \<noteq> []"
  shows "\<exists>m. py_max key xs = Inr m \<and> m \<in> set xs \<and> (\<forall>x\<in>set xs. key x \<le> key m)"
proof -
  from assms obtain a rest where xs: "xs = a # rest" by (cases xs) auto
  let ?m = "max_from key a rest"
  have "py_max key xs = Inr ?m" by (simp add: py_max_def xs)
  moreover have "?m \<in> set xs" using max_from_mem [of key a rest] by (simp add: xs)
  moreover have "\<forall>x\<in>set xs. key x \<le> key ?m"
    using max_from_ge [of _ rest key a] max_from_ge_best [of key a rest] by (auto simp: xs)
  ultimately show ?thesis by blast
qed

subsection \<open>Padding\<close>

lemma py_int_fifth: "0 \<le> w \<Longrightarrow> py_int (of_int w * (1 / 5)) = w div 5"
  unfolding py_int_def
  by (simp, metis floor_divide_of_int_eq of_int_numeral)

text \<open>
  The truncation does not depend on the last bits of the product: every value from
  \<open>w / 5\<close> up to, but excluding, \<open>w / 5 + 1 / 5\<close> truncates to \<open>w div 5\<close>.
\<close>

lemma py_int_near_fifth:
  assumes "0 \<le> w" and "of_int w / 5 \<le> v" and "v < of_int w / 5 + 1 / 5"
  shows "py_int v = w div 5"
proof -
  define k where "k = rat_of_int (w div 5)"
  define r where "r = rat_of_int (w mod 5)"
  have "rat_of_int w = rat_of_int (5 * (w div 5) + w mod 5)"
    by (simp only: mult_div_mod_eq)
  also have "\<dots> = 5 * k + r"
    by (simp only: of_int_add of_int_mult of_int_numeral k_def r_def)
  finally have w: "rat_of_int w = 5 * k + r" .
  have "0 \<le> w mod 5" and "w mod 5 \<le> 4" by simp_all
  then have "rat_of_int 0 \<le> r" and "r \<le> rat_of_int 4"
    unfolding r_def by (simp_all only: of_int_le_iff)
  then have r: "0 \<le> r" "r \<le> 4" by simp_all
  have q: "rat_of_int w / 5 = k + r / 5" by (simp add: w add_divide_distrib)
  have lo: "k \<le> v" using assms(2) r(1) unfolding q by linarith
  have hi: "v < k + 1" using assms(3) r(2) unfolding q by linarith
  have "0 \<le> rat_of_int w" using assms(1) by simp
  then have "0 \<le> v" using assms(2) by simp
  moreover have "\<lfloor>v\<rfloor> = w div 5"
    using lo hi by (intro floor_unique) (simp_all add: k_def)
  ultimately show ?thesis by (simp add: py_int_def)
qed

lemma add_padding_fifth:
  assumes "0 \<le> w" "0 \<le> h"
  shows "add_padding (height, width) (x, y, w, h) (1 / 5) =
           (max 0 (x - w div 5), max 0 (y - h div 5),
            min (width - max 0 (x - w div 5)) (w + 2 * (w div 5)),
            min (height - max 0 (y - h div 5)) (h + 2 * (h div 5)))"
  unfolding add_padding_def Let_def prod.case
  by (simp only: py_int_fifth [OF assms(1)] py_int_fifth [OF assms(2)])

text \<open>
  C9. For an image of positive height and width and a box \<open>(x, y, w, h)\<close> with
  \<open>x \<ge> 0\<close>, \<open>y \<ge> 0\<close>, \<open>w > 0\<close>, \<open>h > 0\<close>, \<open>x + w \<le> width\<close> and \<open>y + h \<le> height\<close>, the box
  returned by \<open>add_padding\<close> with ratio \<open>1/5\<close> lies within the image and contains the
  original box.
\<close>

theorem add_padding_within_image:
  assumes "0 < height" and "0 < width"
    and "0 \<le> x" and "0 \<le> y" and "0 < w" and "0 < h"
    and "x + w \<le> width" and "y + h \<le> height"
    and "add_padding (height, width) (x, y, w, h) (1 / 5) = (x', y', w', h')"
  shows "0 \<le> x' \<and> 0 \<le> y' \<and> x' + w' \<le> width \<and> y' + h' \<le> height \<and>
         x' \<le> x \<and> y' \<le> y \<and> x + w \<le> x' + w' \<and> y + h \<le> y' + h'"
proof -
  have pw: "0 \<le> w div 5" and ph: "0 \<le> h div 5"
    using assms(5,6) by (simp_all add: pos_imp_zdiv_nonneg_iff)
  have "(x', y', w', h') = add_padding (height, width) (x, y, w, h) (1 / 5)"
    using assms(9) by (rule sym)
  also have "\<dots> =
          (max 0 (x - w div 5), max 0 (y - h div 5),
           min (width - max 0 (x - w div 5)) (w + 2 * (w div 5)),
           min (height - max 0 (y - h div 5)) (h + 2 * (h div 5)))"
    by (rule add_padding_fifth) (use assms(5,6) in simp_all)
  finally have eq: "x' = max 0 (x - w div 5)" "y' = max 0 (y - h div 5)"
      "w' = min (width - max 0 (x - w div 5)) (w + 2 * (w div 5))"
      "h' = min (height - max 0 (y - h div 5)) (h + 2 * (h div 5))"
    by simp_all
  have "0 \<le> x' \<and> x' \<le> x \<and> x' + w' \<le> width \<and> x + w \<le> x' + w'"
    unfolding eq using pw assms(3,7) by (simp add: max_def min_def)
  moreover have "0 \<le> y' \<and> y' \<le> y \<and> y' + h' \<le> height \<and> y + h \<le> y' + h'"
    unfolding eq using ph assms(4,8) by (simp add: max_def min_def)
  ultimately show ?thesis by simp
qed

theorem add_padding_within_image_witness:
  "(0::int) < 12 \<and> (0::int) \<le> 2 \<and> (0::int) < 5 \<and> (2::int) + 5 \<le> 12 \<and>
   add_padding (12, 12) (2, 2, 5, 5) (1 / 5) = (1, 1, 7, 7) \<and>
   (0::int) \<le> 1 \<and> (1::int) + 7 \<le> 12 \<and> (1::int) \<le> 2 \<and> (2::int) + 5 \<le> 1 + 7"
proof -
  have pad: "add_padding (12, 12) (2, 2, 5, 5) (1 / 5) = (1, 1, 7, 7)"
    by (simp add: add_padding_def py_int_def)
  show ?thesis
    using add_padding_within_image [of 12 12 2 2 5 5 1 1 7 7] pad by simp
qed

text \<open>
  The crop that follows: for a rectangular image and a box within it, the slices take
  exactly \<open>h\<close> rows of \<open>w\<close> pixels, none of them clamped away.
\<close>

lemma py_slice_within:
  assumes "0 \<le> a" "0 \<le> n" "a + n \<le> int (length xs)"
  shows "py_slice xs a (a + n) = take (nat n) (drop (nat a) xs)"
    and "length (py_slice xs a (a + n)) = nat n"
proof -
  have "nat (min (a + n) (int (length xs))) - nat (min a (int (length xs))) = nat n"
    using assms by (simp add: min_def)
  then show "py_slice xs a (a + n) = take (nat n) (drop (nat a) xs)"
    using assms by (simp add: py_slice_def slice_index_def Let_def)
  then show "length (py_slice xs a (a + n)) = nat n"
    using assms by simp
qed

lemma crop_within_image:
  assumes "\<forall>row\<in>set img. int (length row) = width"
    and "0 \<le> x" "0 \<le> y" "0 \<le> w" "0 \<le> h"
    and "x + w \<le> width" "y + h \<le> int (length img)"
  shows "length (crop img y (y + h) x (x + w)) = nat h"
    and "\<forall>row\<in>set (crop img y (y + h) x (x + w)). length row = nat w"
proof -
  show "length (crop img y (y + h) x (x + w)) = nat h"
    using assms(3,5,7) by (simp add: crop_def py_slice_within(2))
  have rows: "set (py_slice img y (y + h)) \<subseteq> set img"
    using assms(3,5,7) set_take_subset set_drop_subset
    by (fastforce simp: py_slice_within(1))
  show "\<forall>row\<in>set (crop img y (y + h) x (x + w)). length row = nat w"
  proof
    fix row assume "row \<in> set (crop img y (y + h) x (x + w))"
    then obtain r where r: "r \<in> set (py_slice img y (y + h))" "row = py_slice r x (x + w)"
      by (auto simp: crop_def)
    with rows assms(1) have "int (length r) = width" by blast
    then show "length row = nat w"
      using r(2) assms(2,4,6) by (simp add: py_slice_within(2))
  qed
qed

subsection \<open>extract\_face\_from\_document\<close>

lemma extract_face_from_document_returns:
  "\<exists>r. extract_face_from_document cv img_path = Inr r"
  by (simp add: extract_face_from_document_def split: sum.splits)

lemma extraction_result_try_invariant:
  assumes "extract_face_from_document_try cv img_path = Inr r"
  shows "(face_base64 r \<noteq> None \<longleftrightarrow> success r) \<and> (success r \<longrightarrow> face_found r) \<and>
         (\<not> face_found r \<longrightarrow> face_count r = 0)"
proof (cases "imread cv img_path")
  case None
  with assms have "r = extraction_failure False 0 ''Invalid or unreadable image''"
    by (simp add: extract_face_from_document_try_def)
  then show ?thesis by (simp add: extraction_failure_def)
next
  case (Some img)
  show ?thesis
  proof (cases "detectMultiScale cv (equalizeHist cv (cvtColor cv img))")
    case (Inl exc)
    with Some assms show ?thesis by (simp add: extract_face_from_document_try_def)
  next
    case (Inr faces)
    show ?thesis
    proof (cases "faces = []")
      case True
      with Some Inr assms have "r = extraction_failure False 0 ''No face detected''"
        by (simp add: extract_face_from_document_try_def)
      then show ?thesis by (simp add: extraction_failure_def)
    next
      case False
      then obtain largest where m: "py_max area faces = Inr largest"
        using py_max_largest by blast
      obtain x y w h where p: "add_padding (shape img) largest (1 / 5) = (x, y, w, h)"
        by (cases "add_padding (shape img) largest (1 / 5)") auto
      show ?thesis
      proof (cases "imencode cv (crop img y (y + h) x (x + w))")
        case (Inl exc)
        with Some Inr False m p assms show ?thesis
          by (simp add: extract_face_from_document_try_def)
      next
        case enc: (Inr res)
        obtain ok buffer where res: "res = (ok, buffer)" by (cases res) auto
        with Some Inr False m p enc assms show ?thesis
          by (cases ok) (auto simp: extract_face_from_document_try_def extraction_failure_def)
      qed
    qed
  qed
qed

lemma unencodable_face_result:
  assumes "imread cv img_path = Some img"
    and "detectMultiScale cv (equalizeHist cv (cvtColor cv img)) = Inr faces"
    and "faces \<noteq> []"
    and "py_max area faces = Inr largest"
    and "add_padding (shape img) largest (1 / 5) = (x, y, w, h)"
    and "imencode cv (crop img y (y + h) x (x + w)) = Inr (False, buffer)"
  shows "extract_face_from_document cv img_path
           = Inr (extraction_failure True (int (length faces)) ''Failed to encode face image'')"
  using assms by (simp add: extract_face_from_document_def extract_face_from_document_try_def)




text \<open>
  C10. Every dictionary returned by \<open>extract_face_from_document\<close> (and one is returned
  on every input) has \<open>face_base64\<close> present exactly when \<open>success\<close> is true, \<open>success\<close>
  only with \<open>face_found\<close>, and \<open>face_count = 0\<close> whenever \<open>face_found\<close> is false; a
  face that is detected but that the encoder fails on gives \<open>success\<close> false,
  \<open>face_found\<close> true, no \<open>face_base64\<close> and the number of detections.
\<close>

theorem extraction_result_invariant:
  "\<exists>r. extract_face_from_document cv img_path = Inr r \<and>
        (face_base64 r \<noteq> None \<longleftrightarrow> success r) \<and>
        (success r \<longrightarrow> face_found r) \<and>
        (\<not> face_found r \<longrightarrow> face_count r = 0) \<and>
        (\<forall>img faces largest x y w h buffer.
           imread cv img_path = Some img \<longrightarrow>
           detectMultiScale cv (equalizeHist cv (cvtColor cv img)) = Inr faces \<longrightarrow>
           faces \<noteq> [] \<longrightarrow>
           py_max area faces = Inr largest \<longrightarrow>
           add_padding (shape img) largest (1 / 5) = (x, y, w, h) \<longrightarrow>
           imencode cv (crop img y (y + h) x (x + w)) = Inr (False, buffer) \<longrightarrow>
           \<not> success r \<and> face_found r \<and> face_base64 r = None \<and>
           face_count r = int (length faces))"
proof -
  obtain r where r: "extract_face_from_document cv img_path = Inr r"
    using extract_face_from_document_returns by blast
  have inv: "(face_base64 r \<noteq> None \<longleftrightarrow> success r) \<and> (success r \<longrightarrow> face_found r) \<and>
             (\<not> face_found r \<longrightarrow> face_count r = 0)"
  proof (cases "extract_face_from_document_try cv img_path")
    case (Inl exc)
    with r have "r = extraction_failure False 0 (str exc)"
      by (simp add: extract_face_from_document_def)
    then show ?thesis by (simp add: extraction_failure_def)
  next
    case (Inr r')
    with r have "r' = r" by (simp add: extract_face_from_document_def)
    with Inr show ?thesis using extraction_result_try_invariant [of cv img_path r] by simp
  qed
  have "\<not> success r \<and> face_found r \<and> face_base64 r = None \<and> face_count r = int (length faces)"
    if "imread cv img_path = Some img"
      and "detectMultiScale cv (equalizeHist cv (cvtColor cv img)) = Inr faces"
      and "faces \<noteq> []"
      and "py_max area faces = Inr largest"
      and "add_padding (shape img) largest (1 / 5) = (x, y, w, h)"
      and "imencode cv (crop img y (y + h) x (x + w)) = Inr (False, buffer)"
    for img faces largest x y w h buffer
    using unencodable_face_result [OF that] r by (simp add: extraction_failure_def)
  with r inv show ?thesis by blast
qed

theorem extraction_result_invariant_witness:
  "extract_face_from_document (example_cv False) ''scan.jpg''
     = Inr \<lparr>success = False, face_found = True, face_base64 = None, face_count = 2,
            message = ''Failed to encode face image''\<rparr> \<and>
   (\<exists>r. extract_face_from_document (example_cv False) ''scan.jpg'' = Inr r \<and>
        (face_base64 r \<noteq> None \<longleftrightarrow> success r) \<and>
        (success r \<longrightarrow> face_found r) \<and>
        (\<not> face_found r \<longrightarrow> face_count r = 0))"
proof -
  have run: "extract_face_from_document (example_cv False) ''scan.jpg''
     = Inr \<lparr>success = False, face_found = True, face_base64 = None, face_count = 2,
            message = ''Failed to encode face image''\<rparr>"
    by (simp add: example_cv_def extract_face_from_document_def
        extract_face_from_document_try_def extraction_failure_def py_max_def area_def
        split: prod.splits)
  from extraction_result_invariant [of "example_cv False" "''scan.jpg''"] run
  show ?thesis by simp
qed

section \<open>Properties of deepface\_service.py\<close>

subsection \<open>verify\_faces\<close>

lemma verify_faces_returns: "\<exists>r. verify_faces df img1_path img2_path = Inr r"
proof (cases "verify_faces_try df img1_path img2_path")
  case (Inl exc)
  then show ?thesis by (cases exc) (simp_all add: verify_faces_def)
next
  case (Inr r)
  then show ?thesis by (simp add: verify_faces_def)
qed

text \<open>
  C2. When the library call succeeds and reports the distance \<open>d\<close>, the result of
  \<open>verify_faces\<close> has confidence \<open>max 0 (1 - d)\<close>, that is \<open>1 - d\<close> clamped below at
  \<open>0\<close>, distance \<open>d\<close>, and the verified flag and threshold of the library's result
  (\<open>False\<close> and \<open>0\<close> for an absent key).
\<close>

theorem verify_faces_confidence:
  assumes "DeepFace_verify df img1_path img2_path MODEL_NAME DETECTOR_BACKEND = Inr result"
    and "lib_distance result = Some d"
  shows "verify_faces df img1_path img2_path
           = Inr \<lparr>verified = (case lib_verified result of Some b \<Rightarrow> b | None \<Rightarrow> False),
                  confidence = max 0 (1 - d), error = None, distance = d,
                  model = ''ArcFace'',
                  threshold = (case lib_threshold result of Some t \<Rightarrow> t | None \<Rightarrow> 0)\<rparr>
         \<and> 0 \<le> max 0 (1 - d) \<and> (d \<le> 1 \<longrightarrow> max 0 (1 - d) = 1 - d)
         \<and> (1 \<le> d \<longrightarrow> max 0 (1 - d) = 0)"
  using assms by (simp add: verify_faces_def verify_faces_try_def MODEL_NAME_def)

theorem verify_faces_confidence_witness:
  "DeepFace_verify (example_df True) ''live.jpg'' ''doc.jpg'' MODEL_NAME DETECTOR_BACKEND
     = Inr \<lparr>lib_verified = Some True, lib_distance = Some (2 / 5),
            lib_threshold = Some (17 / 25)\<rparr> \<and>
   verify_faces (example_df True) ''live.jpg'' ''doc.jpg''
     = Inr \<lparr>verified = True, confidence = 3 / 5, error = None, distance = 2 / 5,
            model = ''ArcFace'', threshold = 17 / 25\<rparr>"
proof -
  have lib: "DeepFace_verify (example_df True) ''live.jpg'' ''doc.jpg'' MODEL_NAME DETECTOR_BACKEND
     = Inr \<lparr>lib_verified = Some True, lib_distance = Some (2 / 5),
            lib_threshold = Some (17 / 25)\<rparr>"
    by (simp add: example_df_def)
  have d: "lib_distance \<lparr>lib_verified = Some True, lib_distance = Some (2 / 5),
            lib_threshold = Some (17 / 25)\<rparr> = Some (2 / 5 :: rat)"
    by simp
  from verify_faces_confidence [OF lib d] lib show ?thesis by simp
qed

text \<open>
  C3. When the library call raises, \<open>verify_faces\<close> raises nothing: it returns a
  result whose \<open>error\<close> key is \<open>No face detected\<close> for a \<open>ValueError\<close> and the
  message of the exception otherwise, with verified false, confidence \<open>0\<close>, distance
  \<open>1\<close> and threshold \<open>0\<close>.
\<close>

theorem verify_faces_error_marker:
  assumes "DeepFace_verify df img1_path img2_path MODEL_NAME DETECTOR_BACKEND = Inl exc"
  shows "verify_faces df img1_path img2_path
           = Inr \<lparr>verified = False, confidence = 0,
                  error = Some (case exc of ValueError m \<Rightarrow> ''No face detected''
                                | Exception m \<Rightarrow> m),
                  distance = 1, model = ''ArcFace'', threshold = 0\<rparr>"
  using assms
  by (cases exc)
    (simp_all add: verify_faces_def verify_faces_try_def verification_failure_def MODEL_NAME_def)

theorem verify_faces_error_marker_witness:
  "DeepFace_verify (example_df True) ''blank.jpg'' ''doc.jpg'' MODEL_NAME DETECTOR_BACKEND
     = Inl (ValueError ''Face could not be detected'') \<and>
   verify_faces (example_df True) ''blank.jpg'' ''doc.jpg''
     = Inr \<lparr>verified = False, confidence = 0, error = Some ''No face detected'',
            distance = 1, model = ''ArcFace'', threshold = 0\<rparr>"
proof -
  have lib: "DeepFace_verify (example_df True) ''blank.jpg'' ''doc.jpg'' MODEL_NAME DETECTOR_BACKEND
     = Inl (ValueError ''Face could not be detected'')"
    by (simp add: example_df_def)
  from verify_faces_error_marker [OF lib] lib show ?thesis by simp
qed

text \<open>
  C5. With the library deciding as the spec describes, by comparing the embedding
  distance against a fixed threshold, every successful verification returns the
  library's distance and the fixed threshold, and its verified flag is true if and only
  if the returned distance is at most the returned threshold.
\<close>

theorem verify_faces_decides_by_threshold:
  assumes "DeepFace_verify df = DeepFace_verify_spec embedding_distance fixed_threshold"
    and "embedding_distance img1_path img2_path = Inr d"
  shows "\<exists>r. verify_faces df img1_path img2_path = Inr r \<and> error r = None \<and>
           distance r = d \<and> threshold r = fixed_threshold \<and>
           (verified r \<longleftrightarrow> distance r \<le> threshold r)"
  using assms
  by (simp add: verify_faces_def verify_faces_try_def DeepFace_verify_spec_def)

theorem verify_faces_decides_by_threshold_witness:
  "DeepFace_verify example_spec_df = DeepFace_verify_spec example_distance (17 / 25) \<and>
   example_distance ''live.jpg'' ''doc.jpg'' = Inr (2 / 5) \<and>
   example_distance ''live.jpg'' ''stranger.jpg'' = Inr (9 / 10) \<and>
   (\<exists>r. verify_faces example_spec_df ''live.jpg'' ''doc.jpg'' = Inr r \<and> error r = None \<and>
        distance r = 2 / 5 \<and> threshold r = 17 / 25 \<and> verified r) \<and>
   (\<exists>r. verify_faces example_spec_df ''live.jpg'' ''stranger.jpg'' = Inr r \<and> error r = None \<and>
        distance r = 9 / 10 \<and> threshold r = 17 / 25 \<and> \<not> verified r)"
proof -
  have lib: "DeepFace_verify example_spec_df = DeepFace_verify_spec example_distance (17 / 25)"
    by (simp add: example_spec_df_def)
  have near: "example_distance ''live.jpg'' ''doc.jpg'' = Inr (2 / 5)"
    and far: "example_distance ''live.jpg'' ''stranger.jpg'' = Inr (9 / 10)"
    by (simp_all add: example_distance_def)
  have a: "\<exists>r. verify_faces example_spec_df ''live.jpg'' ''doc.jpg'' = Inr r \<and> error r = None \<and>
        distance r = 2 / 5 \<and> threshold r = 17 / 25 \<and> verified r"
    using verify_faces_decides_by_threshold [OF lib near] by auto
  have b: "\<exists>r. verify_faces example_spec_df ''live.jpg'' ''stranger.jpg'' = Inr r \<and> error r = None \<and>
        distance r = 9 / 10 \<and> threshold r = 17 / 25 \<and> \<not> verified r"
    using verify_faces_decides_by_threshold [OF lib far] by auto
  from lib near far a b show ?thesis by blast
qed

text \<open>
  The failure dictionary satisfies the same relation (false, and \<open>1\<close> is not at most
  \<open>0\<close>), so with such a library it holds for every result of \<open>verify_faces\<close>.
\<close>

lemma verify_faces_relation_on_every_result:
  assumes "DeepFace_verify df = DeepFace_verify_spec embedding_distance fixed_threshold"
    and "verify_faces df img1_path img2_path = Inr r"
  shows "verified r \<longleftrightarrow> distance r \<le> threshold r"
proof (cases "embedding_distance img1_path img2_path")
  case (Inl exc)
  with assms show ?thesis
    by (cases exc)
      (auto simp: verify_faces_def verify_faces_try_def DeepFace_verify_spec_def
        verification_failure_def)
next
  case (Inr d)
  with assms show ?thesis
    by (auto simp: verify_faces_def verify_faces_try_def DeepFace_verify_spec_def)
qed

subsection \<open>detect\_liveness\<close>

lemma detect_liveness_returns: "\<exists>r. detect_liveness df cv img_path = Inr r"
  by (simp add: detect_liveness_def split: sum.splits)

text \<open>
  For a readable image in which a face is detected, with \<open>blur\<close> the variance of the
  Laplacian of the grayscale image and \<open>brightness\<close> its mean: \<open>is_live\<close> is true
  exactly when \<open>blur > 50\<close> and \<open>60 \<le> brightness \<le> 200\<close>, and the confidence is the
  runtime's rounding to two digits of the runtime's half of the runtime's sum of
  \<open>min(1, blur / 100)\<close> and the brightness score. The value of that float expression
  is not determined here.
\<close>

lemma detect_liveness_result:
  assumes "DeepFace_extract_faces df img_path DETECTOR_BACKEND = Inr faces"
    and "faces \<noteq> []"
    and "imread cv img_path = Some img"
    and "blur = Laplacian_var cv (cvtColor cv img)"
    and "brightness = mean cv (cvtColor cv img)"
  shows "\<exists>r. detect_liveness df cv img_path = Inr r \<and>
           (is_live r \<longleftrightarrow> 50 < blur \<and> 60 \<le> brightness \<and> brightness \<le> 200) \<and>
           liveness_confidence r
             = float64_round cv
                 (float64_truediv cv
                    (float64_add cv (min 1 (float64_truediv cv blur 100))
                       (if 60 \<le> brightness \<and> brightness \<le> 200 then 1 else 0)) 2) 2 \<and>
           liveness_method r = ''basic_quality_check'' \<and>
           liveness_message r
             = (if is_live r then ''Liveness indicators passed''
                else ''Liveness indicators weak'')"
  using assms
  by (simp add: detect_liveness_def detect_liveness_try_def BLUR_THRESHOLD_def Let_def)

section \<open>Properties of the routers\<close>

subsection \<open>Content-type validation\<close>

lemma validate_image_rejects:
  assumes "content_type file \<noteq> Some ''image/jpeg''" and "content_type file \<noteq> Some ''image/png''"
  shows "validate_image file
           = Inl (HTTPException 400 ''Unsupported file type. Only JPEG and PNG are allowed.'')"
  using assms by (simp add: validate_image_def)

lemma validate_image_cases:
  "validate_image file = Inr () \<or>
   validate_image file
     = Inl (HTTPException 400 ''Unsupported file type. Only JPEG and PNG are allowed.'')"
  by (simp add: validate_image_def)

text \<open>
  C6. For an upload whose content type is neither \<open>image/jpeg\<close> nor \<open>image/png\<close>, each
  of the three endpoints fails with status 400 and the detail \<open>Unsupported file type.
  Only JPEG and PNG are allowed.\<close>, having made no call on a temporary file or on the
  service; for \<open>verify_face\<close> this holds whichever of its two uploads is the
  unsupported one.
\<close>

theorem unsupported_content_type_rejected:
  assumes "content_type file \<noteq> Some ''image/jpeg''" and "content_type file \<noteq> Some ''image/png''"
  shows "extract_face io extraction_service file
           = ([], Inl (HTTPException 400 ''Unsupported file type. Only JPEG and PNG are allowed.''))
       \<and> detect_liveness_handler io liveness_service file
           = ([], Inl (HTTPException 400 ''Unsupported file type. Only JPEG and PNG are allowed.''))
       \<and> verify_face io verification_service file other
           = ([], Inl (HTTPException 400 ''Unsupported file type. Only JPEG and PNG are allowed.''))
       \<and> verify_face io verification_service other file
           = ([], Inl (HTTPException 400 ''Unsupported file type. Only JPEG and PNG are allowed.''))"
proof -
  note rej = validate_image_rejects [OF assms]
  have "extract_face io extraction_service file
           = ([], Inl (HTTPException 400 ''Unsupported file type. Only JPEG and PNG are allowed.''))"
    by (simp add: extract_face_def rej)
  moreover have "detect_liveness_handler io liveness_service file
           = ([], Inl (HTTPException 400 ''Unsupported file type. Only JPEG and PNG are allowed.''))"
    by (simp add: detect_liveness_handler_def rej)
  moreover have "verify_face io verification_service file other
           = ([], Inl (HTTPException 400 ''Unsupported file type. Only JPEG and PNG are allowed.''))"
    by (simp add: verify_face_def rej)
  moreover have "verify_face io verification_service other file
           = ([], Inl (HTTPException 400 ''Unsupported file type. Only JPEG and PNG are allowed.''))"
    using validate_image_cases [of other] by (auto simp: verify_face_def rej)
  ultimately show ?thesis by simp
qed

theorem unsupported_content_type_rejected_witness:
  "content_type text_upload \<noteq> Some ''image/jpeg'' \<and> content_type text_upload \<noteq> Some ''image/png'' \<and>
   extract_face (example_io 2) (extract_face_from_document (example_cv True)) text_upload
     = ([], Inl (HTTPException 400 ''Unsupported file type. Only JPEG and PNG are allowed.'')) \<and>
   detect_liveness_handler (example_io 2) (detect_liveness (example_df True) (example_cv True))
       text_upload
     = ([], Inl (HTTPException 400 ''Unsupported file type. Only JPEG and PNG are allowed.'')) \<and>
   verify_face (example_io 2) (verify_faces (example_df True)) jpeg_upload text_upload
     = ([], Inl (HTTPException 400 ''Unsupported file type. Only JPEG and PNG are allowed.''))"
proof -
  have a: "content_type text_upload \<noteq> Some ''image/jpeg''"
    and b: "content_type text_upload \<noteq> Some ''image/png''"
    by (simp_all add: text_upload_def)
  from unsupported_content_type_rejected [OF a b, of "example_io 2"
      "extract_face_from_document (example_cv True)"
      "detect_liveness (example_df True) (example_cv True)"
      "verify_faces (example_df True)" jpeg_upload] a b
  show ?thesis by simp
qed

subsection \<open>Mapping of the extraction result\<close>

lemma validate_image_accepts:
  assumes "content_type file \<in> {Some ''image/jpeg'', Some ''image/png''}"
  shows "validate_image file = Inr ()"
  using assms by (auto simp: validate_image_def)

text \<open>
  C8. For a request to \<open>/api/extract-face\<close> with a valid content type that reaches the
  service, the endpoint answers with status 400 and the result's message as detail
  exactly when the result's \<open>success\<close> field is false, and otherwise returns the result
  dictionary as the response body.
\<close>

theorem extract_face_maps_result:
  assumes "content_type document \<in> {Some ''image/jpeg'', Some ''image/png''}"
    and "NamedTemporaryFile io 0 = Inr tmp_file"
    and "upload_read io document = Inr content"
    and "tmp_write io tmp_file content = Inr ()"
    and "tmp_close io tmp_file = Inr ()"
    and "service tmp_file = Inr result"
  shows "snd (extract_face io service document)
           = (if \<not> success result then Inl (HTTPException 400 (message result))
              else Inr result)"
  using assms validate_image_accepts [OF assms(1)]
  by (simp add: extract_face_def extract_face_try_def io_bind_def call_def except_clauses_def)

theorem extract_face_maps_result_witness:
  "content_type jpeg_upload \<in> {Some ''image/jpeg'', Some ''image/png''} \<and>
   NamedTemporaryFile (example_io 1) 0 = Inr ''/tmp/tmp0.jpg'' \<and>
   extract_face_from_document (example_cv False) ''/tmp/tmp0.jpg''
     = Inr \<lparr>success = False, face_found = True, face_base64 = None, face_count = 2,
            message = ''Failed to encode face image''\<rparr> \<and>
   snd (extract_face (example_io 1) (extract_face_from_document (example_cv False)) jpeg_upload)
     = Inl (HTTPException 400 ''Failed to encode face image'')"
proof -
  have ct: "content_type jpeg_upload \<in> {Some ''image/jpeg'', Some ''image/png''}"
    by (simp add: jpeg_upload_def)
  have tmp: "NamedTemporaryFile (example_io 1) 0 = Inr ''/tmp/tmp0.jpg''"
    and rd: "upload_read (example_io 1) jpeg_upload = Inr [255, 216]"
    and wr: "tmp_write (example_io 1) ''/tmp/tmp0.jpg'' [255, 216] = Inr ()"
    and cl: "tmp_close (example_io 1) ''/tmp/tmp0.jpg'' = Inr ()"
    by (simp_all add: example_io_def)
  have svc: "extract_face_from_document (example_cv False) ''/tmp/tmp0.jpg''
     = Inr \<lparr>success = False, face_found = True, face_base64 = None, face_count = 2,
            message = ''Failed to encode face image''\<rparr>"
    by (simp add: example_cv_def extract_face_from_document_def
        extract_face_from_document_try_def extraction_failure_def py_max_def area_def
        split: prod.splits)
  from extract_face_maps_result
      [where service = "extract_face_from_document (example_cv False)", OF ct tmp rd wr cl svc]
    ct tmp svc
  show ?thesis
    by simp
qed

text \<open>With the repository's own service behind the endpoint, the service always answers.\<close>

lemma extract_face_with_opencv_service:
  assumes "content_type document \<in> {Some ''image/jpeg'', Some ''image/png''}"
    and "NamedTemporaryFile io 0 = Inr tmp_file"
    and "upload_read io document = Inr content"
    and "tmp_write io tmp_file content = Inr ()"
    and "tmp_close io tmp_file = Inr ()"
  shows "\<exists>result. extract_face_from_document cv tmp_file = Inr result \<and>
           snd (extract_face io (extract_face_from_document cv) document)
             = (if \<not> success result then Inl (HTTPException 400 (message result))
                else Inr result)"
proof -
  obtain result where r: "extract_face_from_document cv tmp_file = Inr result"
    using extract_face_from_document_returns by blast
  have "snd (extract_face io (extract_face_from_document cv) document)
             = (if \<not> success result then Inl (HTTPException 400 (message result))
                else Inr result)"
    using assms r validate_image_accepts [OF assms(1)]
    by (simp add: extract_face_def extract_face_try_def io_bind_def call_def except_clauses_def)
  with r show ?thesis by blast
qed

subsection \<open>Deletion of the temporary files\<close>

lemma foldl_apply_event_untouched:
  assumes "\<forall>e\<in>set evs. \<not> is_unlink e \<and> \<not> is_create e"
  shows "foldl apply_event files evs = files"
  using assms
proof (induction evs arbitrary: files)
  case Nil
  show ?case by simp
next
  case (Cons e evs)
  then have "apply_event files e = files" by (cases e) simp_all
  with Cons show ?case by simp
qed

lemma extract_face_try_events:
  "\<forall>e\<in>set (fst (extract_face_try io service document tmp_file)). \<not> is_unlink e \<and> \<not> is_create e"
  by (auto simp: extract_face_try_def io_bind_def call_def split: sum.splits if_splits)

lemma detect_liveness_handler_try_events:
  "\<forall>e\<in>set (fst (detect_liveness_handler_try io service photo tmp_file)).
     \<not> is_unlink e \<and> \<not> is_create e"
  by (auto simp: detect_liveness_handler_try_def io_bind_def call_def split: sum.splits if_splits)

lemma verify_face_try_events:
  "\<forall>e\<in>set (fst (verify_face_try io service live_photo document_photo live_tmp doc_tmp)).
     \<not> is_unlink e \<and> \<not> is_create e"
  by (auto simp: verify_face_try_def io_bind_def call_def
      split: sum.splits option.splits if_splits)

text \<open>
  In the two endpoints with one upload, every run that passes validation and gets its
  temporary file ends with the attempt to delete that file, after all calls on the file
  and on the service, whatever the outcome; if \<^verbatim>\<open>os.unlink\<close> succeeds no file is left.
\<close>

lemma extract_face_deletes_tmp:
  assumes "validate_image document = Inr ()" and "NamedTemporaryFile io 0 = Inr tmp_file"
  shows "\<exists>mid. fst (extract_face io service document)
                 = TmpCreated tmp_file # mid @ [OsUnlink tmp_file (os_unlink io tmp_file)] \<and>
               (\<forall>e\<in>set mid. \<not> is_unlink e \<and> \<not> is_create e)"
    and "os_unlink io tmp_file \<Longrightarrow> files_after (fst (extract_face io service document)) = {}"
proof -
  let ?mid = "fst (extract_face_try io service document tmp_file)"
  have tr: "fst (extract_face io service document)
              = TmpCreated tmp_file # ?mid @ [OsUnlink tmp_file (os_unlink io tmp_file)]"
    using assms by (simp add: extract_face_def unlink_tmp_def split: prod.splits)
  then show "\<exists>mid. fst (extract_face io service document)
                 = TmpCreated tmp_file # mid @ [OsUnlink tmp_file (os_unlink io tmp_file)] \<and>
               (\<forall>e\<in>set mid. \<not> is_unlink e \<and> \<not> is_create e)"
    using extract_face_try_events by blast
  show "files_after (fst (extract_face io service document)) = {}" if "os_unlink io tmp_file"
    using that foldl_apply_event_untouched [OF extract_face_try_events]
    by (simp add: tr files_after_def)
qed

lemma detect_liveness_handler_deletes_tmp:
  assumes "validate_image photo = Inr ()" and "NamedTemporaryFile io 0 = Inr tmp_file"
  shows "\<exists>mid. fst (detect_liveness_handler io service photo)
                 = TmpCreated tmp_file # mid @ [OsUnlink tmp_file (os_unlink io tmp_file)] \<and>
               (\<forall>e\<in>set mid. \<not> is_unlink e \<and> \<not> is_create e)"
    and "os_unlink io tmp_file \<Longrightarrow>
           files_after (fst (detect_liveness_handler io service photo)) = {}"
proof -
  let ?mid = "fst (detect_liveness_handler_try io service photo tmp_file)"
  have tr: "fst (detect_liveness_handler io service photo)
              = TmpCreated tmp_file # ?mid @ [OsUnlink tmp_file (os_unlink io tmp_file)]"
    using assms by (simp add: detect_liveness_handler_def unlink_tmp_def split: prod.splits)
  then show "\<exists>mid. fst (detect_liveness_handler io service photo)
                 = TmpCreated tmp_file # mid @ [OsUnlink tmp_file (os_unlink io tmp_file)] \<and>
               (\<forall>e\<in>set mid. \<not> is_unlink e \<and> \<not> is_create e)"
    using detect_liveness_handler_try_events by blast
  show "files_after (fst (detect_liveness_handler io service photo)) = {}"
    if "os_unlink io tmp_file"
    using that foldl_apply_event_untouched [OF detect_liveness_handler_try_events]
    by (simp add: tr files_after_def)
qed

text \<open>
  In \<open>verify_face\<close> the same holds for the runs that get both temporary files.
\<close>

lemma verify_face_deletes_both_tmp:
  assumes "validate_image live_photo = Inr ()" and "validate_image document_photo = Inr ()"
    and "NamedTemporaryFile io 0 = Inr live_tmp" and "NamedTemporaryFile io 1 = Inr doc_tmp"
  shows "\<exists>mid. fst (verify_face io service live_photo document_photo)
                 = [TmpCreated live_tmp, TmpCreated doc_tmp] @ mid
                   @ [OsUnlink live_tmp (os_unlink io live_tmp),
                      OsUnlink doc_tmp (os_unlink io doc_tmp)] \<and>
               (\<forall>e\<in>set mid. \<not> is_unlink e \<and> \<not> is_create e)"
    and "os_unlink io live_tmp \<Longrightarrow> os_unlink io doc_tmp \<Longrightarrow>
           files_after (fst (verify_face io service live_photo document_photo)) = {}"
proof -
  let ?mid = "fst (verify_face_try io service live_photo document_photo live_tmp doc_tmp)"
  have tr: "fst (verify_face io service live_photo document_photo)
              = [TmpCreated live_tmp, TmpCreated doc_tmp] @ ?mid
                @ [OsUnlink live_tmp (os_unlink io live_tmp),
                   OsUnlink doc_tmp (os_unlink io doc_tmp)]"
    using assms by (simp add: verify_face_def unlink_tmp_def split: prod.splits)
  then show "\<exists>mid. fst (verify_face io service live_photo document_photo)
                 = [TmpCreated live_tmp, TmpCreated doc_tmp] @ mid
                   @ [OsUnlink live_tmp (os_unlink io live_tmp),
                      OsUnlink doc_tmp (os_unlink io doc_tmp)] \<and>
               (\<forall>e\<in>set mid. \<not> is_unlink e \<and> \<not> is_create e)"
    using verify_face_try_events by blast
  show "files_after (fst (verify_face io service live_photo document_photo)) = {}"
    if "os_unlink io live_tmp" and "os_unlink io doc_tmp"
    using that foldl_apply_event_untouched [OF verify_face_try_events]
    by (auto simp: tr files_after_def)
qed

text \<open>
  It does not hold for the run of \<open>verify_face\<close> in which the first temporary file is
  created and the creation of the second raises: the exception leaves the handler
  before the \<^verbatim>\<open>try\<close> statement, no deletion is attempted, and the first file stays.
\<close>

lemma verify_face_second_creation_raises:
  assumes "validate_image live_photo = Inr ()" and "validate_image document_photo = Inr ()"
    and "NamedTemporaryFile io 0 = Inr live_tmp" and "NamedTemporaryFile io 1 = Inl exc"
  shows "verify_face io service live_photo document_photo
           = ([TmpCreated live_tmp], Inl (Raised exc))"
    and "files_after (fst (verify_face io service live_photo document_photo)) = {live_tmp}"
  using assms by (simp_all add: verify_face_def files_after_def)

text \<open>
  C7. Every temporary file created for an upload is to be deleted before the response
  or error leaves the handler. Run of \<open>verify_face\<close> on two JPEG uploads while the
  operating system gives one temporary file and refuses the second: the handler ends
  with the error of the second creation, its only call is the creation of
  \<open>/tmp/tmp0.jpg\<close>, no \<^verbatim>\<open>os.unlink\<close> is attempted and the file is left behind.
\<close>

theorem verify_face_leaves_first_tmp:
  "verify_face (example_io 1) (verify_faces (example_df True)) jpeg_upload jpeg_upload
     = ([TmpCreated ''/tmp/tmp0.jpg''],
        Inl (Raised (Exception ''[Errno 24] Too many open files''))) \<and>
   files_after
     (fst (verify_face (example_io 1) (verify_faces (example_df True)) jpeg_upload jpeg_upload))
     = {''/tmp/tmp0.jpg''}"
  by (simp add: verify_face_def validate_image_def jpeg_upload_def example_io_def
      files_after_def)

end
